theory Spec2Isabelle
  imports Main "HOL-Library.Word"
begin

unbundle bit_operations_syntax

section \<open>Data model\<close>

text \<open>
  Go byte slices are lists of 8-bit words. A Go \<open>rune\<close> is an \<open>int32\<close>; every rune the
  program computes lies between 0 and \<open>0x1FFFFF\<close>, far from the ends of the 32-bit range,
  so runes are modelled as integers and Go's shifts and masks as the bit operations on
  \<open>int\<close> (\<open>drop_bit\<close> is the arithmetic shift \<open>>>\<close>). Go strings that name charsets,
  content types and headers are Isabelle strings.
\<close>

type_synonym byte = "8 word"
type_synonym rune = int

text \<open>
  Go \<open>error\<close> values, by origin. \<open>RepertoireError\<close> is the one error type of
  \<open>golang.org/x/text\<close> with a \<open>Replacement() byte\<close> method, that is, the one that satisfies
  the interface \<open>replacementError\<close> of \<open>json.go\<close>. \<open>Panic\<close> stands for a run-time panic
  (a slice or index expression out of range); it is not an error value in Go, and is a
  value here so that every way out of a function is a branch of its model. The errors of
  \<open>ianaindex\<close> are its three package variables.
\<close>

datatype index_error = errInvalidName | errUnknown | errUnsupported

datatype error =
    ErrShortDst
  | ErrShortSrc
  | RepertoireError byte
  | EncodingError string
  | JSONError string
  | IndexError index_error
  | ErrorsNew string
  | HTTPError string
  | MIMEError string
  | Panic string

fun is_replacementError :: "error option \<Rightarrow> bool" where
  "is_replacementError (Some (RepertoireError b)) = True"
| "is_replacementError _ = False"

text \<open>
  A \<open>transform.Transformer\<close> with its internal state made explicit:
  \<open>t s n src atEOF\<close> is the call \<open>Transform(dst, src, atEOF)\<close> with \<open>len(dst) = n\<close> in
  state \<open>s\<close>; it returns the new state, the bytes written to the front of \<open>dst\<close> (their
  number is \<open>nDst\<close>), \<open>nSrc\<close> and the error.
\<close>

type_synonym 's transformer =
  "'s \<Rightarrow> nat \<Rightarrow> byte list \<Rightarrow> bool \<Rightarrow> 's \<times> byte list \<times> nat \<times> error option"

section \<open>Standard library: \<open>unicode/utf8\<close> and \<open>unicode/utf16\<close>\<close>

definition RuneError :: rune where
  "RuneError = 0xFFFD"

text \<open>The table \<open>first\<close> of \<open>unicode/utf8\<close>: information about the first byte of an encoding.\<close>

definition first :: "byte \<Rightarrow> byte" where
  "first b =
     (if b < 0x80 then 0xF0
      else if b < 0xC2 then 0xF1
      else if b < 0xE0 then 0x02
      else if b = 0xE0 then 0x13
      else if b < 0xED then 0x03
      else if b = 0xED then 0x23
      else if b < 0xF0 then 0x03
      else if b = 0xF0 then 0x34
      else if b < 0xF4 then 0x04
      else if b = 0xF4 then 0x44
      else 0xF1)"

text \<open>The table \<open>acceptRanges\<close>: the bounds of the second byte, indexed by \<open>x >> 4\<close>.\<close>

definition acceptRanges :: "byte \<Rightarrow> byte \<times> byte" where
  "acceptRanges i =
     (if i = 1 then (0xA0, 0xBF)
      else if i = 2 then (0x80, 0x9F)
      else if i = 3 then (0x90, 0xBF)
      else if i = 4 then (0x80, 0x8F)
      else (0x80, 0xBF))"

text \<open>
  \<open>utf8.DecodeRune\<close>: the first code point of \<open>p\<close> and its width in bytes;
  \<open>(RuneError, 0)\<close> on empty input and \<open>(RuneError, 1)\<close> on an encoding that is invalid
  or cut short.
\<close>

definition DecodeRune :: "byte list \<Rightarrow> rune \<times> nat" where
  "DecodeRune p =
     (let n = length p in
      if n < 1 then (RuneError, 0)
      else
        let p0 = p ! 0; x = first p0 in
        if x \<ge> 0xF0 then ((if x = 0xF1 then RuneError else uint p0), 1)
        else
          let sz = unat (x AND 7); accept = acceptRanges (drop_bit 4 x) in
          if n < sz then (RuneError, 1)
          else
            let b1 = p ! 1 in
            if b1 < fst accept \<or> snd accept < b1 then (RuneError, 1)
            else if sz \<le> 2 then
              (push_bit 6 (uint (p0 AND 0x1F)) OR uint (b1 AND 0x3F), 2)
            else
              let b2 = p ! 2 in
              if b2 < 0x80 \<or> 0xBF < b2 then (RuneError, 1)
              else if sz \<le> 3 then
                (push_bit 12 (uint (p0 AND 0x0F)) OR push_bit 6 (uint (b1 AND 0x3F))
                   OR uint (b2 AND 0x3F), 3)
              else
                let b3 = p ! 3 in
                if b3 < 0x80 \<or> 0xBF < b3 then (RuneError, 1)
                else
                  (push_bit 18 (uint (p0 AND 0x07)) OR push_bit 12 (uint (b1 AND 0x3F))
                     OR push_bit 6 (uint (b2 AND 0x3F)) OR uint (b3 AND 0x3F), 4))"

text \<open>\<open>utf8.FullRune\<close>: whether \<open>p\<close> begins with a full encoding (an invalid one counts).\<close>

definition FullRune :: "byte list \<Rightarrow> bool" where
  "FullRune p =
     (let n = length p in
      if n = 0 then False
      else
        let x = first (p ! 0) in
        if n \<ge> unat (x AND 7) then True
        else
          let accept = acceptRanges (drop_bit 4 x) in
          if n > 1 \<and> (p ! 1 < fst accept \<or> snd accept < p ! 1) then True
          else if n > 2 \<and> (p ! 2 < 0x80 \<or> 0xBF < p ! 2) then True
          else False)"

text \<open>\<open>utf16.EncodeRune\<close>: the surrogate pair of a code point from \<open>0x10000\<close> up.\<close>

definition utf16_EncodeRune :: "rune \<Rightarrow> rune \<times> rune" where
  "utf16_EncodeRune r =
     (if r < 0x10000 \<or> r > 0x10FFFF then (0xFFFD, 0xFFFD)
      else
        let r' = r - 0x10000 in
        (0xD800 + (drop_bit 10 r' AND 0x3FF), 0xDC00 + (r' AND 0x3FF)))"

section \<open>The JSON-safe transcoder (\<open>json.go\<close>)\<close>

text \<open>\<open>const hexDigits = "0123456789abcdef"\<close>, as bytes.\<close>

definition hexDigits :: "byte list" where
  "hexDigits = [0x30, 0x31, 0x32, 0x33, 0x34, 0x35, 0x36, 0x37, 0x38, 0x39,
                0x61, 0x62, 0x63, 0x64, 0x65, 0x66]"

text \<open>The index expression \<open>hexDigits[i]\<close>, which panics out of range.\<close>

definition hexDigit :: "int \<Rightarrow> byte option" where
  "hexDigit i = (if 0 \<le> i \<and> i < int (length hexDigits) then Some (hexDigits ! nat i) else None)"

text \<open>
  \<open>escape(b, r)\<close> fills \<open>b[0..5]\<close>; the model returns the six bytes, or \<open>None\<close> when an
  index into \<open>hexDigits\<close> is out of range.
\<close>

definition escape :: "rune \<Rightarrow> byte list option" where
  "escape r =
     (case hexDigit (drop_bit 12 r) of None \<Rightarrow> None | Some h3 \<Rightarrow>
      case hexDigit (drop_bit 8 r AND 0xf) of None \<Rightarrow> None | Some h2 \<Rightarrow>
      case hexDigit (drop_bit 4 r AND 0xf) of None \<Rightarrow> None | Some h1 \<Rightarrow>
      case hexDigit (r AND 0xf) of None \<Rightarrow> None | Some h0 \<Rightarrow>
        Some [0x5C, 0x75, h3, h2, h1, h0])"

text \<open>
  The buffer \<open>buf\<close> that \<open>Transform\<close> builds for a rune: one escape below \<open>0x10000\<close>, the
  escapes of the two surrogates otherwise.
\<close>

definition escape_buf :: "rune \<Rightarrow> byte list option" where
  "escape_buf r =
     (if r < 0x10000 then escape r
      else
        case utf16_EncodeRune r of (r1, r2) \<Rightarrow>
        case escape r1 of None \<Rightarrow> None | Some b1 \<Rightarrow>
        case escape r2 of None \<Rightarrow> None | Some b2 \<Rightarrow> Some (b1 @ b2))"

lemma first_size:
  "\<not> 0xF0 \<le> first b \<Longrightarrow>
     unat (first b AND 7) = 2 \<or> unat (first b AND 7) = 3 \<or> unat (first b AND 7) = 4"
  by (simp add: first_def split: if_splits)

lemma DecodeRune_progress:
  assumes "DecodeRune p = (r, n)" and "r \<noteq> RuneError"
  shows "0 < n \<and> n \<le> length p"
proof -
  from assms have "p \<noteq> []"
    by (auto simp: DecodeRune_def)
  then have "1 \<le> length p"
    by (cases p) auto
  with assms show ?thesis
    using first_size [of "p ! 0"]
    by (auto simp: DecodeRune_def Let_def split: if_splits)
qed

lemma DecodeRune_progress':
  "(r, n) = DecodeRune p \<Longrightarrow> r \<noteq> RuneError \<Longrightarrow> 0 < n \<and> n \<le> length p"
  using DecodeRune_progress [of p r n] by simp

text \<open>
  \<open>jsonTransformer.Transform\<close>. The loop state is \<open>nDst\<close> (here the bytes \<open>out\<close> written so
  far; \<open>nDst = length out\<close>), \<open>nSrc\<close> and the state \<open>s\<close> of the wrapped encoder \<open>t.e\<close>.
  \<open>dlen\<close> is \<open>len(dst)\<close>. The slice expressions \<open>dst[nDst:]\<close> and \<open>src[nSrc:]\<close> panic
  out of range.
\<close>

function Transform_loop ::
  "'s transformer \<Rightarrow> nat \<Rightarrow> byte list \<Rightarrow> bool \<Rightarrow> 's \<Rightarrow> byte list \<Rightarrow> nat
     \<Rightarrow> 's \<times> byte list \<times> nat \<times> error option"
where
  "Transform_loop e dlen src atEOF s out nSrc =
     (if dlen < length out \<or> length src < nSrc
      then (s, out, nSrc, Some (Panic ''slice bounds out of range''))
      else
        (case e s (dlen - length out) (drop nSrc src) atEOF of (s1, w, ns, err) \<Rightarrow>
          (let out1 = out @ w; nSrc1 = nSrc + ns in
           if \<not> is_replacementError err then (s1, out1, nSrc1, err)
           else if length src < nSrc1
           then (s1, out1, nSrc1, Some (Panic ''slice bounds out of range''))
           else
             (case DecodeRune (drop nSrc1 src) of (r, ns') \<Rightarrow>
               if r = RuneError then (s1, out1, nSrc1, Some ErrShortSrc)
               else
                 (case escape_buf r of
                    None \<Rightarrow> (s1, out1, nSrc1, Some (Panic ''index out of range''))
                  | Some buf \<Rightarrow>
                      if dlen < length out1
                      then (s1, out1, nSrc1, Some (Panic ''slice bounds out of range''))
                      else
                        (case e s1 (dlen - length out1) buf False of (s2, w2, ns2, err2) \<Rightarrow>
                          if err2 \<noteq> None then (s2, out1, nSrc1, err2)
                          else Transform_loop e dlen src atEOF s2 (out1 @ w2) (nSrc1 + ns')))))))"
  by pat_completeness auto
termination
  apply (relation "measure (\<lambda>(e, dlen, src, atEOF, s, out, nSrc). length src - nSrc)")
   apply simp
  apply (frule (1) DecodeRune_progress')
  apply (elim conjE)
  apply simp
  done

declare Transform_loop.simps [simp del]

definition Transform ::
  "'s transformer \<Rightarrow> 's \<Rightarrow> nat \<Rightarrow> byte list \<Rightarrow> bool \<Rightarrow> 's \<times> byte list \<times> nat \<times> error option"
where
  "Transform e s dlen src atEOF = Transform_loop e dlen src atEOF s [] 0"



section \<open>\<open>golang.org/x/text\<close>: driving a transformer over a whole buffer\<close>

text \<open>\<open>transform.grow\<close>: the length of the next, longer destination buffer.\<close>

definition grow :: "nat \<Rightarrow> nat" where
  "grow m = (if m \<le> 32 then 64 else if m \<le> 256 then m * 2 else m + drop_bit 1 m)"

text \<open>
  \<open>transform.doAppend\<close>: call \<open>Transform\<close> with \<open>atEOF = true\<close> until it returns anything
  but \<open>ErrShortDst\<close>, growing the destination when a call wrote nothing. The loop need not
  end for every transformer, so not returning is the value \<open>None\<close>.
\<close>

partial_function (option) doAppend ::
  "'s transformer \<Rightarrow> byte list \<Rightarrow> 's \<Rightarrow> nat \<Rightarrow> byte list \<Rightarrow> nat
     \<Rightarrow> (byte list \<times> nat \<times> error option) option"
where
  "doAppend t src s dlen out pSrc =
     (if dlen < length out \<or> length src < pSrc
      then Some (out, pSrc, Some (Panic ''slice bounds out of range''))
      else
        (case t s (dlen - length out) (drop pSrc src) True of (s1, w, nSrc, err) \<Rightarrow>
          if err \<noteq> Some ErrShortDst then Some (out @ w, pSrc + nSrc, err)
          else doAppend t src s1 (if length w = 0 then grow dlen else dlen) (out @ w)
                 (pSrc + nSrc)))"

declare doAppend.simps [code]

text \<open>\<open>transform.Bytes\<close> starts with a destination as long as the source.\<close>

definition transform_Bytes ::
  "'s transformer \<Rightarrow> 's \<Rightarrow> byte list \<Rightarrow> (byte list \<times> nat \<times> error option) option"
where
  "transform_Bytes t s b = doAppend t b s (length b) [] 0"

text \<open>\<open>(*encoding.Encoder).Bytes\<close> and \<open>(*encoding.Decoder).Bytes\<close>: the bytes or the error.\<close>

definition Bytes :: "'s transformer \<Rightarrow> 's \<Rightarrow> byte list \<Rightarrow> (error + byte list) option" where
  "Bytes t s b =
     (case transform_Bytes t s b of
        None \<Rightarrow> None
      | Some (r, n, Some err) \<Rightarrow> Some (Inl err)
      | Some (r, n, None) \<Rightarrow> Some (Inr r))"

text \<open>
  An \<open>encoding.Encoding\<close>: \<open>NewEncoder\<close> and \<open>NewDecoder\<close> give a fresh transformer, that
  is, an initial state and the transform function.
\<close>

record 's encoding =
  NewEncoder :: "'s \<times> 's transformer"
  NewDecoder :: "'s \<times> 's transformer"

text \<open>
  \<open>ianaindex.MIME.Encoding\<close> is a
  parameter \<open>MIME_Encoding\<close> of the functions below: \<open>Inl\<close> an error, \<open>Inr None\<close> the
  result \<open>(nil, nil)\<close> of a known name without implementation, \<open>Inr (Some enc)\<close> an
  encoding.
\<close>

type_synonym 's index = "string \<Rightarrow> index_error + 's encoding option"

section \<open>Strings\<close>

text \<open>
  \<open>strings.EqualFold\<close> on ASCII letters. Go folds by Unicode simple case folding; the only
  letters outside ASCII that fold to an ASCII letter are U+212A (to k) and U+017F (to s),
  and the program compares with \<open>"utf-8"\<close> only, so folding ASCII letters decides the same
  comparisons.
\<close>

definition toLower :: "char \<Rightarrow> char" where
  "toLower c =
     (let n = (of_char c :: nat) in if 65 \<le> n \<and> n \<le> 90 then char_of (n + 32) else c)"

definition EqualFold :: "string \<Rightarrow> string \<Rightarrow> bool" where
  "EqualFold s t = (map toLower s = map toLower t)"

definition HasPrefix :: "string \<Rightarrow> string \<Rightarrow> bool" where
  "HasPrefix s p = (length p \<le> length s \<and> take (length p) s = p)"

text \<open>Reading a Go map of strings: the zero value \<open>""\<close> for a missing key or a nil map.\<close>

definition index_map :: "(string \<rightharpoonup> string) \<Rightarrow> string \<Rightarrow> string" where
  "index_map m k = (case m k of None \<Rightarrow> [] | Some v \<Rightarrow> v)"

text \<open>The conversion \<open>string(b)\<close> of a byte slice.\<close>

definition string_of_bytes :: "byte list \<Rightarrow> string" where
  "string_of_bytes b = map (\<lambda>c. char_of (unat c)) b"

section \<open>\<open>marshal\<close> and \<open>unmarshal\<close> (\<open>json.go\<close>)\<close>

text \<open>
  \<open>json.Marshal\<close>, \<open>json.Unmarshal\<close> and \<open>ianaindex.MIME.Encoding\<close> are parameters. A result
  is \<open>None\<close> when the call does not return.
\<close>

definition marshal ::
  "('v \<Rightarrow> error + byte list) \<Rightarrow> 's index \<Rightarrow> string \<Rightarrow> 'v \<Rightarrow> (error + byte list) option"
where
  "marshal json_Marshal MIME_Encoding charset v =
     (let charset = (if charset = [] then ''us-ascii'' else charset) in
      case json_Marshal v of
        Inl err \<Rightarrow> Some (Inl err)
      | Inr buf \<Rightarrow>
          if EqualFold charset ''utf-8'' then Some (Inr buf)
          else
            (case MIME_Encoding charset of
               Inl err \<Rightarrow> Some (Inl (IndexError err))
             | Inr None \<Rightarrow> Some (Inl (ErrorsNew ''marshal: unsupported encoding''))
             | Inr (Some enc) \<Rightarrow>
                 (case NewEncoder enc of (s0, e) \<Rightarrow> Bytes (Transform e) s0 buf)))"

definition unmarshal ::
  "(byte list \<Rightarrow> error + 'v) \<Rightarrow> 's index \<Rightarrow> byte list \<Rightarrow> string \<Rightarrow> (error + 'v) option"
where
  "unmarshal json_Unmarshal MIME_Encoding buf charset =
     (if charset \<noteq> [] \<and> \<not> EqualFold charset ''utf-8'' then
        (case MIME_Encoding charset of
           Inl err \<Rightarrow> Some (Inl (IndexError err))
         | Inr None \<Rightarrow> Some (Inl (ErrorsNew ''unmarshal: unsupported encoding''))
         | Inr (Some enc) \<Rightarrow>
             (case NewDecoder enc of (s0, d) \<Rightarrow>
               (case Bytes d s0 buf of
                  None \<Rightarrow> None
                | Some (Inl err) \<Rightarrow> Some (Inl err)
                | Some (Inr buf') \<Rightarrow> Some (json_Unmarshal buf'))))
      else Some (json_Unmarshal buf))"

section \<open>Requests and responses (\<open>json.go\<close>)\<close>

text \<open>
  \<open>mime.ParseMediaType\<close> is a parameter: the media type, the parameters and the error.
\<close>

type_synonym media_parser = "string \<Rightarrow> string \<times> (string \<rightharpoonup> string) \<times> error option"

text \<open>
  The fields of an \<open>http.Request\<close> that the program sets. \<open>Body\<close> and \<open>GetBody\<close> are
  \<open>None\<close> for nil; \<open>GetBody = Some b\<close> is a function that returns a reader over \<open>b\<close>.
\<close>

record request =
  Method :: string
  URL :: string
  Header :: "string \<rightharpoonup> string"
  Body :: "byte list option"
  ContentLength :: int
  GetBody :: "byte list option"

text \<open>
  \<open>http.NewRequest(method, url, r)\<close> with \<open>r\<close> nil or a \<open>*bytes.Reader\<close>. Its validation
  of the method and the URL is the parameter \<open>valid\<close>.
\<close>

definition http_NewRequest ::
  "(string \<Rightarrow> string \<Rightarrow> error option) \<Rightarrow> string \<Rightarrow> string \<Rightarrow> byte list option \<Rightarrow> error + request"
where
  "http_NewRequest valid method url r =
     (case valid method url of
        Some err \<Rightarrow> Inl err
      | None \<Rightarrow>
          Inr \<lparr>Method = (if method = [] then ''GET'' else method), URL = url,
               Header = Map.empty, Body = r,
               ContentLength = (case r of None \<Rightarrow> 0 | Some b \<Rightarrow> int (length b)),
               GetBody = r\<rparr>)"

definition MarshalRequest ::
  "('v \<Rightarrow> error + byte list) \<Rightarrow> 's index \<Rightarrow> media_parser \<Rightarrow> (string \<Rightarrow> string \<Rightarrow> error option)
     \<Rightarrow> string \<Rightarrow> string \<Rightarrow> string \<Rightarrow> 'v option \<Rightarrow> (error + request) option"
where
  "MarshalRequest json_Marshal MIME_Encoding ParseMediaType valid method url contentType v =
     (let contentType =
        (if contentType = [] then ''application/json;charset=utf-8'' else contentType) in
      case
        (case v of
           None \<Rightarrow> Some (Inr None)
         | Some x \<Rightarrow>
             (case ParseMediaType contentType of (mt, mtParam, perr) \<Rightarrow>
               (case marshal json_Marshal MIME_Encoding (index_map mtParam ''charset'') x of
                  None \<Rightarrow> None
                | Some (Inl err) \<Rightarrow> Some (Inl err)
                | Some (Inr b) \<Rightarrow> Some (Inr (Some b)))))
      of
        None \<Rightarrow> None
      | Some (Inl err) \<Rightarrow> Some (Inl err)
      | Some (Inr body) \<Rightarrow>
          (case http_NewRequest valid method url body of
             Inl err \<Rightarrow> Some (Inl err)
           | Inr req \<Rightarrow>
               (case body of
                  None \<Rightarrow> Some (Inr req)
                | Some b \<Rightarrow>
                    Some (Inr (req\<lparr>ContentLength := int (length b),
                                   Header := (Header req)(''Content-Type'' \<mapsto> contentType),
                                   GetBody := Some b\<rparr>)))))"





section \<open>\<open>ResponseError\<close> (\<open>client.go\<close>)\<close>

record response =
  Status :: string
  StatusCode :: int
  rHeader :: "string \<rightharpoonup> string"

record ResponseError =
  Response :: response
  errBody :: "byte list"

text \<open>
  \<open>(*ResponseError).Error\<close>. \<open>bytes.TrimSpace\<close> is the parameter \<open>TrimSpace\<close>. The inner
  \<open>case\<close> computes \<open>buf\<close> and \<open>err\<close> as they stand after the charset block.
\<close>

definition Error ::
  "media_parser \<Rightarrow> 's index \<Rightarrow> (byte list \<Rightarrow> byte list) \<Rightarrow> ResponseError \<Rightarrow> string option"
where
  "Error ParseMediaType MIME_Encoding TrimSpace e =
     (case ParseMediaType (index_map (rHeader (Response e)) ''Content-Type'') of
        (mt, params, err) \<Rightarrow>
          if err = None \<and> HasPrefix mt ''text/'' then
            (let buf = errBody e; charset = index_map params ''charset'' in
             case
               (if charset \<noteq> [] \<and> \<not> EqualFold charset ''utf-8'' then
                  (case MIME_Encoding charset of
                     Inl ierr \<Rightarrow> Some (buf, Some (IndexError ierr))
                   | Inr None \<Rightarrow> Some (buf, None)
                   | Inr (Some enc) \<Rightarrow>
                       (case NewDecoder enc of (s0, d) \<Rightarrow>
                         (case Bytes d s0 buf of
                            None \<Rightarrow> None
                          | Some (Inl derr) \<Rightarrow> Some ([], Some derr)
                          | Some (Inr buf') \<Rightarrow> Some (buf', None))))
                else Some (buf, None))
             of
               None \<Rightarrow> None
             | Some (buf, err) \<Rightarrow>
                 if err = None \<and> length buf > 0 \<and> length buf < 256
                 then Some (string_of_bytes (TrimSpace buf))
                 else Some (Status (Response e)))
          else Some (Status (Response e)))"

section \<open>Encodings of \<open>golang.org/x/text\<close> that the tests use\<close>

text \<open>
  \<open>asciiEncoder.Transform\<close> of \<open>ianaindex\<close> (US-ASCII): it copies bytes up to \<open>0x7F\<close> and
  reports a \<open>RepertoireError\<close> with the replacement \<open>0x1A\<close> at any other byte. The result
  is the bytes written, \<open>nSrc\<close> and the error.
\<close>

fun ascii_encode :: "nat \<Rightarrow> byte list \<Rightarrow> byte list \<times> nat \<times> error option" where
  "ascii_encode dlen [] = ([], 0, None)"
| "ascii_encode dlen (c # cs) =
     (if c > 0x7F then ([], 0, Some (RepertoireError 0x1A))
      else if dlen = 0 then ([], 0, Some ErrShortDst)
      else (case ascii_encode (dlen - 1) cs of (w, n, err) \<Rightarrow> (c # w, Suc n, err)))"

definition asciiEncoder :: "'s transformer" where
  "asciiEncoder s dlen src atEOF = (s, ascii_encode dlen src)"

text \<open>
  \<open>asciiDecoder.Transform\<close>: a byte above \<open>0x7F\<close> becomes U+FFFD, which is three bytes
  of UTF-8.
\<close>

fun ascii_decode :: "nat \<Rightarrow> byte list \<Rightarrow> byte list \<times> nat \<times> error option" where
  "ascii_decode dlen [] = ([], 0, None)"
| "ascii_decode dlen (c # cs) =
     (if c > 0x7F then
        (if dlen < 3 then ([], 0, Some ErrShortDst)
         else (case ascii_decode (dlen - 3) cs of (w, n, err) \<Rightarrow>
                 ([0xEF, 0xBF, 0xBD] @ w, Suc n, err)))
      else if dlen = 0 then ([], 0, Some ErrShortDst)
      else (case ascii_decode (dlen - 1) cs of (w, n, err) \<Rightarrow> (c # w, Suc n, err)))"

definition asciiDecoder :: "'s transformer" where
  "asciiDecoder s dlen src atEOF = (s, ascii_decode dlen src)"

lemma DecodeRune_size_pos: "p \<noteq> [] \<Longrightarrow> 0 < snd (DecodeRune p)"
  by (auto simp: DecodeRune_def Let_def)

text \<open>
  \<open>charmapEncoder.Transform\<close> of \<open>encoding/charmap\<close>, for a character map that is a
  superset of ASCII. The map's table \<open>encode\<close>, which the Go code searches from \<open>low\<close>,
  is the partial function \<open>lookup\<close> from runes of \<open>0x80\<close> and above to bytes;
  \<open>repl\<close> is the map's replacement byte.
\<close>

function charmap_encode ::
  "(rune \<Rightarrow> byte option) \<Rightarrow> byte \<Rightarrow> nat \<Rightarrow> byte list \<Rightarrow> bool \<Rightarrow> byte list \<times> nat \<times> error option"
where
  "charmap_encode lookup repl dlen src atEOF =
     (if src = [] then ([], 0, None)
      else if dlen = 0 then ([], 0, Some ErrShortDst)
      else if hd src < 0x80 then
        (case charmap_encode lookup repl (dlen - 1) (tl src) atEOF of
           (w, n, err) \<Rightarrow> (hd src # w, 1 + n, err))
      else
        (case DecodeRune src of (r, sz) \<Rightarrow>
          if sz = 1 then
            (if \<not> atEOF \<and> \<not> FullRune src then ([], 0, Some ErrShortSrc)
             else ([], 0, Some (RepertoireError repl)))
          else
            (case lookup r of
               None \<Rightarrow> ([], 0, Some (RepertoireError repl))
             | Some b \<Rightarrow>
                 (case charmap_encode lookup repl (dlen - 1) (drop sz src) atEOF of
                    (w, n, err) \<Rightarrow> (b # w, sz + n, err)))))"
  by pat_completeness auto
termination
  apply (relation "measure (\<lambda>(lookup, repl, dlen, src, atEOF). length src)")
    apply simp
   apply (case_tac src; simp)
  apply (frule DecodeRune_size_pos)
  apply (case_tac src; simp)
  apply (metis diff_less snd_conv zero_less_Suc)
  done

declare charmap_encode.simps [simp del]

definition charmapEncoder :: "(rune \<Rightarrow> byte option) \<Rightarrow> byte \<Rightarrow> 's transformer" where
  "charmapEncoder lookup repl s dlen src atEOF = (s, charmap_encode lookup repl dlen src atEOF)"

text \<open>
  \<open>charmapDecoder.Transform\<close> for a superset of ASCII: the table \<open>decode\<close> gives the UTF-8
  bytes of each byte from \<open>0x80\<close> up.
\<close>

fun charmap_decode ::
  "(byte \<Rightarrow> byte list) \<Rightarrow> nat \<Rightarrow> byte list \<Rightarrow> byte list \<times> nat \<times> error option"
where
  "charmap_decode decode dlen [] = ([], 0, None)"
| "charmap_decode decode dlen (c # cs) =
     (if c < 0x80 then
        (if dlen = 0 then ([], 0, Some ErrShortDst)
         else (case charmap_decode decode (dlen - 1) cs of (w, n, err) \<Rightarrow> (c # w, Suc n, err)))
      else if dlen < length (decode c) then ([], 0, Some ErrShortDst)
      else (case charmap_decode decode (dlen - length (decode c)) cs of
              (w, n, err) \<Rightarrow> (decode c @ w, Suc n, err)))"

definition charmapDecoder :: "(byte \<Rightarrow> byte list) \<Rightarrow> 's transformer" where
  "charmapDecoder decode s dlen src atEOF = (s, charmap_decode decode dlen src)"

text \<open>\<open>charmap.ISO8859_1\<close>: byte \<open>b\<close> is the code point \<open>b\<close>; the replacement is \<open>0x1A\<close>.\<close>

definition latin1_lookup :: "rune \<Rightarrow> byte option" where
  "latin1_lookup r = (if 0x80 \<le> r \<and> r \<le> 0xFF then Some (word_of_int r) else None)"

definition latin1_decode :: "byte \<Rightarrow> byte list" where
  "latin1_decode c = [0xC0 OR drop_bit 6 c, 0x80 OR (c AND 0x3F)]"

definition ISO8859_1 :: "'s \<Rightarrow> 's encoding" where
  "ISO8859_1 s0 =
     \<lparr>NewEncoder = (s0, charmapEncoder latin1_lookup 0x1A),
      NewDecoder = (s0, charmapDecoder latin1_decode)\<rparr>"

definition US_ASCII :: "'s \<Rightarrow> 's encoding" where
  "US_ASCII s0 = \<lparr>NewEncoder = (s0, asciiEncoder), NewDecoder = (s0, asciiDecoder)\<rparr>"

text \<open>
  The part of the index \<open>ianaindex.MIME\<close> that the tests of the repository exercise:
  two implemented names, one known name without implementation, and the error for every
  other name.
\<close>

definition test_index :: "unit index" where
  "test_index name =
     (if name = ''us-ascii'' then Inr (Some (US_ASCII ()))
      else if name = ''iso-8859-1'' then Inr (Some (ISO8859_1 ()))
      else if name = ''OSD_EBCDIC_DF03_IRV'' then Inr None
      else Inl errInvalidName)"

section \<open>Library calls at the values of the repository's tests\<close>

text \<open>
  \<open>json.Marshal\<close> of a \<open>json.RawMessage\<close> that holds compact, valid JSON returns its
  bytes, and \<open>json.Unmarshal\<close> of valid JSON into a \<open>*json.RawMessage\<close> (as the tests
  unmarshal) stores the bytes.
\<close>

definition json_Marshal_raw :: "byte list \<Rightarrow> error + byte list" where
  "json_Marshal_raw m = Inr m"

definition json_Unmarshal_raw :: "byte list \<Rightarrow> error + byte list" where
  "json_Unmarshal_raw data = Inr data"

text \<open>\<open>mime.ParseMediaType\<close> at the content types of the tests.\<close>

definition test_ParseMediaType :: media_parser where
  "test_ParseMediaType s =
     (if s = ''application/json;charset=utf-8''
      then (''application/json'', [''charset'' \<mapsto> ''utf-8''], None)
      else if s = ''application/json'' then (''application/json'', Map.empty, None)
      else if s = ''application/json;charset=iso-8859-1''
      then (''application/json'', [''charset'' \<mapsto> ''iso-8859-1''], None)
      else if s = ''text/plain;charset=iso-8859-1''
      then (''text/plain'', [''charset'' \<mapsto> ''iso-8859-1''], None)
      else if s = ''text/plain;charset=OSD_EBCDIC_DF03_IRV''
      then (''text/plain'', [''charset'' \<mapsto> ''OSD_EBCDIC_DF03_IRV''], None)
      else ([], Map.empty, Some (MIMEError ''mime: no media type'')))"

text \<open>
  The validation of \<open>http.NewRequest\<close> at the URLs of the tests: \<open>":::"\<close> has no protocol
  scheme (test \<open>invalid_url\<close>).
\<close>

definition test_valid :: "string \<Rightarrow> string \<Rightarrow> error option" where
  "test_valid method url =
     (if url = '':::'' then Some (HTTPError ''missing protocol scheme'') else None)"

text \<open>
  \<open>bytes.TrimSpace\<close> on input with no white space outside ASCII: it drops the six ASCII
  space bytes from both ends.
\<close>

definition asciiSpace :: "byte \<Rightarrow> bool" where
  "asciiSpace c = (c = 0x09 \<or> c = 0x0A \<or> c = 0x0B \<or> c = 0x0C \<or> c = 0x0D \<or> c = 0x20)"

definition TrimSpace_ascii :: "byte list \<Rightarrow> byte list" where
  "TrimSpace_ascii b = rev (dropWhile asciiSpace (rev (dropWhile asciiSpace b)))"

section \<open>Claims\<close>

subsection \<open>C3: UTF-8 is passed through\<close>

text \<open>
  C3. For every value and every charset name that equals \<open>"utf-8"\<close> when case is ignored,
  \<open>marshal\<close> returns exactly what \<open>json.Marshal\<close> returns: the same bytes (or the same
  error), whatever the charset index and the encodings are, so the index is not consulted
  and no transform runs.
\<close>

theorem marshal_utf8_identity:
  assumes "EqualFold charset ''utf-8''"
  shows "marshal json_Marshal MIME_Encoding charset v = Some (json_Marshal v)"
proof -
  from assms have "charset \<noteq> []"
    by (auto simp: EqualFold_def)
  with assms show ?thesis
    by (simp add: marshal_def split: sum.splits)
qed

theorem marshal_utf8_identity_witness:
  "EqualFold ''UTF-8'' ''utf-8'' \<and>
   marshal json_Marshal_raw test_index ''UTF-8'' [0x22, 0xE2, 0x98, 0xBA, 0x22]
     = Some (Inr [0x22, 0xE2, 0x98, 0xBA, 0x22])"
proof -
  have h: "EqualFold ''UTF-8'' ''utf-8''"
    by code_simp
  from marshal_utf8_identity [OF h, of json_Marshal_raw test_index "[0x22, 0xE2, 0x98, 0xBA, 0x22]"]
  show ?thesis using h
    by (simp add: json_Marshal_raw_def)
qed

subsection \<open>C4: two kinds of failure of the charset lookup\<close>

text \<open>
  C4. When a charset name reaches the index (it is not empty and is not \<open>"utf-8"\<close>, and in
  \<open>marshal\<close> the value was serialized), a name the index does not recognize (\<open>cs1\<close>) makes
  \<open>marshal\<close> and \<open>unmarshal\<close> return the index's own error, and a name it recognizes
  without an implementation (\<open>cs2\<close>) makes them return the error
  \<open>"unsupported encoding"\<close> that the package creates; the two results differ.
\<close>

theorem charset_error_kinds:
  assumes "json_Marshal v = Inr buf"
    and "cs1 \<noteq> []" and "\<not> EqualFold cs1 ''utf-8''" and "MIME_Encoding cs1 = Inl ierr"
    and "cs2 \<noteq> []" and "\<not> EqualFold cs2 ''utf-8''" and "MIME_Encoding cs2 = Inr None"
  shows "marshal json_Marshal MIME_Encoding cs1 v = Some (Inl (IndexError ierr)) \<and>
         marshal json_Marshal MIME_Encoding cs2 v
           = Some (Inl (ErrorsNew ''marshal: unsupported encoding'')) \<and>
         unmarshal json_Unmarshal MIME_Encoding data cs1 = Some (Inl (IndexError ierr)) \<and>
         unmarshal json_Unmarshal MIME_Encoding data cs2
           = Some (Inl (ErrorsNew ''unmarshal: unsupported encoding'')) \<and>
         marshal json_Marshal MIME_Encoding cs1 v \<noteq> marshal json_Marshal MIME_Encoding cs2 v \<and>
         unmarshal json_Unmarshal MIME_Encoding data cs1
           \<noteq> unmarshal json_Unmarshal MIME_Encoding data cs2"
  using assms by (simp add: marshal_def unmarshal_def)

theorem charset_error_kinds_witness:
  "marshal json_Marshal_raw test_index ''no-such'' [0x22, 0xE2, 0x98, 0xBA, 0x22]
     = Some (Inl (IndexError errInvalidName)) \<and>
   marshal json_Marshal_raw test_index ''OSD_EBCDIC_DF03_IRV'' [0x22, 0xE2, 0x98, 0xBA, 0x22]
     = Some (Inl (ErrorsNew ''marshal: unsupported encoding'')) \<and>
   unmarshal json_Unmarshal_raw test_index [0x22, 0xE2, 0x98, 0xBA, 0x22] ''no-such''
     = Some (Inl (IndexError errInvalidName)) \<and>
   unmarshal json_Unmarshal_raw test_index [0x22, 0xE2, 0x98, 0xBA, 0x22] ''OSD_EBCDIC_DF03_IRV''
     = Some (Inl (ErrorsNew ''unmarshal: unsupported encoding''))"
proof -
  have a: "json_Marshal_raw [0x22, 0xE2, 0x98, 0xBA, 0x22] = Inr [0x22, 0xE2, 0x98, 0xBA, 0x22]"
    by (simp add: json_Marshal_raw_def)
  have b: "\<not> EqualFold ''no-such'' ''utf-8''" "\<not> EqualFold ''OSD_EBCDIC_DF03_IRV'' ''utf-8''"
    by (simp_all add: EqualFold_def)
  have c: "test_index ''no-such'' = Inl errInvalidName"
    "test_index ''OSD_EBCDIC_DF03_IRV'' = Inr None"
    by (simp_all add: test_index_def)
  from charset_error_kinds [where json_Marshal = json_Marshal_raw and MIME_Encoding = test_index
      and ?cs1.0 = "''no-such''" and ?cs2.0 = "''OSD_EBCDIC_DF03_IRV''"
      and json_Unmarshal = json_Unmarshal_raw and data = "[0x22, 0xE2, 0x98, 0xBA, 0x22]", OF a]
    b c
  show ?thesis by simp
qed

subsection \<open>C1: escapes of code points outside the target charset\<close>

text \<open>
  C1 says that every code point the target charset cannot represent is written as its
  \<open>\u\<close> escape. U+FFFD is such a code point for US-ASCII, and its UTF-8 encoding is the
  three bytes \<open>EF BF BD\<close>. At these bytes \<open>Transform\<close> over the US-ASCII encoder writes
  nothing and returns \<open>ErrShortSrc\<close>, for every destination length, every continuation of
  the input and both values of \<open>atEOF\<close>: \<open>utf8.DecodeRune\<close> returns \<open>RuneError\<close>, which is
  U+FFFD itself, and the code takes this for a source cut short.
\<close>

theorem replacement_char_transform:
  "Transform asciiEncoder s dlen ([0xEF, 0xBF, 0xBD] @ rest) atEOF = (s, [], 0, Some ErrShortSrc)"
  by (simp add: Transform_def Transform_loop.simps asciiEncoder_def DecodeRune_def first_def
      acceptRanges_def RuneError_def)

subsection \<open>C2: round trip\<close>

text \<open>
  C2 says that \<open>marshal\<close> followed by \<open>unmarshal\<close> with the same charset succeeds and gives
  the value back. For the JSON string that holds the single code point U+FFFD and the
  charset \<open>"us-ascii"\<close>, \<open>marshal\<close> already fails: it returns the error \<open>ErrShortSrc\<close>.
\<close>

theorem replacement_char_marshal:
  "marshal json_Marshal_raw test_index ''us-ascii'' [0x22, 0xEF, 0xBF, 0xBD, 0x22]
     = Some (Inl ErrShortSrc)"
  by code_simp

subsection \<open>C6: errors of the wrapped encoder\<close>



















subsection \<open>C7: two layers of defaults\<close>



subsection \<open>C9: a request without a value\<close>

text \<open>
  C9 says that for every method, URL and content type \<open>MarshalRequest\<close> with a nil value
  returns a request. It does not when \<open>http.NewRequest\<close> rejects the URL: for the URL
  \<open>":::"\<close> of the test \<open>invalid_url\<close> it returns the error of \<open>http.NewRequest\<close> and no
  request.
\<close>

theorem MarshalRequest_nil_invalid_url:
  "MarshalRequest json_Marshal_raw test_index test_ParseMediaType test_valid
     ''POST'' '':::'' ''application/json'' None
   = Some (Inl (HTTPError ''missing protocol scheme''))"
  by (simp add: MarshalRequest_def http_NewRequest_def test_valid_def)

text \<open>
  C9, amended. With a nil value \<open>MarshalRequest\<close> returns the error of \<open>http.NewRequest\<close>
  when that rejects the method or the URL, and otherwise a request with no body, no
  header, \<open>ContentLength\<close> 0 and no \<open>GetBody\<close>. The result is a function of the method and
  the URL alone: the content type, the parser of media types, the serializer and the
  charset index do not occur in it, so the content type is not parsed and causes no
  error.
\<close>

theorem MarshalRequest_nil:
  "MarshalRequest json_Marshal MIME_Encoding ParseMediaType valid method url contentType None =
     (case valid method url of
        Some err \<Rightarrow> Some (Inl err)
      | None \<Rightarrow>
          Some (Inr \<lparr>Method = (if method = [] then ''GET'' else method), URL = url,
                     Header = Map.empty, Body = None, ContentLength = 0, GetBody = None\<rparr>))"
  by (simp add: MarshalRequest_def http_NewRequest_def Let_def split: option.splits)

subsection \<open>C10: the message of a \<open>ResponseError\<close>\<close>

text \<open>
  C10 says that the body is the message only when any declared charset other than UTF-8
  resolves and decodes without error. For a charset that the index knows but does not
  implement (\<open>Inr None\<close>; \<open>marshal\<close> and \<open>unmarshal\<close> call this an unsupported encoding)
  nothing is decoded, and \<open>Error\<close> still returns the trimmed body.
\<close>

theorem Error_unimplemented_charset:
  "Error test_ParseMediaType test_index TrimSpace_ascii
     \<lparr>Response = \<lparr>Status = ''500 Internal Server Error'', StatusCode = 500,
        rHeader = [''Content-Type'' \<mapsto> ''text/plain;charset=OSD_EBCDIC_DF03_IRV'']\<rparr>,
      errBody = [0x6F, 0x6F, 0x70, 0x73, 0x0A]\<rparr> = Some ''oops'' \<and>
   test_index ''OSD_EBCDIC_DF03_IRV'' = Inr None"
proof
  show "Error test_ParseMediaType test_index TrimSpace_ascii
     \<lparr>Response = \<lparr>Status = ''500 Internal Server Error'', StatusCode = 500,
        rHeader = [''Content-Type'' \<mapsto> ''text/plain;charset=OSD_EBCDIC_DF03_IRV'']\<rparr>,
      errBody = [0x6F, 0x6F, 0x70, 0x73, 0x0A]\<rparr> = Some ''oops''"
    by code_simp
  show "test_index ''OSD_EBCDIC_DF03_IRV'' = Inr None"
    by (simp add: test_index_def)
qed

text \<open>
  C10, amended. Let the Content-Type of a response parse to \<open>(mt, params, perr)\<close> and
  \<open>charset\<close> be its charset parameter. Call \<open>buf\<close> usable when the parse gave no error,
  \<open>mt\<close> starts with \<open>"text/"\<close>, \<open>buf\<close> is not empty and shorter than 256 bytes, and \<open>buf\<close> is
  either the body as received, the charset being empty, UTF-8 or known to the index
  without an implementation, or the body decoded without error from a charset that the
  index implements. Then (1) \<open>Error\<close> returns the trimmed \<open>buf\<close> when \<open>buf\<close> is usable;
  (2) whenever \<open>Error\<close> returns a message other than the status line, the message is a
  trimmed usable buffer; (3) in every other case, that is, for a response \<open>e'\<close> with no
  usable buffer, \<open>Error\<close> returns the status line (the decoder, when one runs, being one
  that returns).
\<close>

theorem Error_message:
  assumes "ParseMediaType (index_map (rHeader (Response e)) ''Content-Type'') = (mt, params, perr)"
    and "charset = index_map params ''charset''"
    and "ParseMediaType (index_map (rHeader (Response e')) ''Content-Type'') = (mt', params', perr')"
    and "charset' = index_map params' ''charset''"
  shows
    "(perr = None \<and> HasPrefix mt ''text/'' \<and> 0 < length buf \<and> length buf < 256 \<and>
      ((charset = [] \<or> EqualFold charset ''utf-8'' \<or> MIME_Encoding charset = Inr None) \<and>
         buf = errBody e \<or>
       charset \<noteq> [] \<and> \<not> EqualFold charset ''utf-8'' \<and>
         (\<exists>enc. MIME_Encoding charset = Inr (Some enc) \<and>
            Bytes (snd (NewDecoder enc)) (fst (NewDecoder enc)) (errBody e) = Some (Inr buf)))
      \<longrightarrow> Error ParseMediaType MIME_Encoding TrimSpace e
            = Some (string_of_bytes (TrimSpace buf))) \<and>
     (Error ParseMediaType MIME_Encoding TrimSpace e = Some msg \<and> msg \<noteq> Status (Response e)
      \<longrightarrow> perr = None \<and> HasPrefix mt ''text/'' \<and>
          (\<exists>b. msg = string_of_bytes (TrimSpace b) \<and> 0 < length b \<and> length b < 256 \<and>
            ((charset = [] \<or> EqualFold charset ''utf-8'' \<or> MIME_Encoding charset = Inr None) \<and>
               b = errBody e \<or>
             charset \<noteq> [] \<and> \<not> EqualFold charset ''utf-8'' \<and>
               (\<exists>enc. MIME_Encoding charset = Inr (Some enc) \<and>
                  Bytes (snd (NewDecoder enc)) (fst (NewDecoder enc)) (errBody e)
                    = Some (Inr b))))) \<and>
     ((\<forall>b. \<not> (perr' = None \<and> HasPrefix mt' ''text/'' \<and> 0 < length b \<and> length b < 256 \<and>
            ((charset' = [] \<or> EqualFold charset' ''utf-8'' \<or> MIME_Encoding charset' = Inr None) \<and>
               b = errBody e' \<or>
             charset' \<noteq> [] \<and> \<not> EqualFold charset' ''utf-8'' \<and>
               (\<exists>enc. MIME_Encoding charset' = Inr (Some enc) \<and>
                  Bytes (snd (NewDecoder enc)) (fst (NewDecoder enc)) (errBody e')
                    = Some (Inr b))))) \<and>
      (\<forall>enc. perr' = None \<and> HasPrefix mt' ''text/'' \<and> charset' \<noteq> [] \<and>
            \<not> EqualFold charset' ''utf-8'' \<and> MIME_Encoding charset' = Inr (Some enc)
            \<longrightarrow> Bytes (snd (NewDecoder enc)) (fst (NewDecoder enc)) (errBody e') \<noteq> None)
      \<longrightarrow> Error ParseMediaType MIME_Encoding TrimSpace e' = Some (Status (Response e')))"
proof (intro conjI impI)
  assume "perr = None \<and> HasPrefix mt ''text/'' \<and> 0 < length buf \<and> length buf < 256 \<and>
      ((charset = [] \<or> EqualFold charset ''utf-8'' \<or> MIME_Encoding charset = Inr None) \<and>
         buf = errBody e \<or>
       charset \<noteq> [] \<and> \<not> EqualFold charset ''utf-8'' \<and>
         (\<exists>enc. MIME_Encoding charset = Inr (Some enc) \<and>
            Bytes (snd (NewDecoder enc)) (fst (NewDecoder enc)) (errBody e) = Some (Inr buf)))"
  with assms(1,2)
  show "Error ParseMediaType MIME_Encoding TrimSpace e = Some (string_of_bytes (TrimSpace buf))"
    by (auto simp: Error_def Let_def split: if_splits sum.splits option.splits prod.splits)
next
  assume "Error ParseMediaType MIME_Encoding TrimSpace e = Some msg \<and> msg \<noteq> Status (Response e)"
  with assms(1,2) show "perr = None"
    by (auto simp: Error_def Let_def split: if_splits)
next
  assume "Error ParseMediaType MIME_Encoding TrimSpace e = Some msg \<and> msg \<noteq> Status (Response e)"
  with assms(1,2) show "HasPrefix mt ''text/''"
    by (auto simp: Error_def Let_def split: if_splits)
next
  assume "Error ParseMediaType MIME_Encoding TrimSpace e = Some msg \<and> msg \<noteq> Status (Response e)"
  with assms(1,2)
  show "\<exists>b. msg = string_of_bytes (TrimSpace b) \<and> 0 < length b \<and> length b < 256 \<and>
            ((charset = [] \<or> EqualFold charset ''utf-8'' \<or> MIME_Encoding charset = Inr None) \<and>
               b = errBody e \<or>
             charset \<noteq> [] \<and> \<not> EqualFold charset ''utf-8'' \<and>
               (\<exists>enc. MIME_Encoding charset = Inr (Some enc) \<and>
                  Bytes (snd (NewDecoder enc)) (fst (NewDecoder enc)) (errBody e)
                    = Some (Inr b)))"
    by (auto simp: Error_def Let_def split: if_splits sum.splits option.splits prod.splits)
next
  assume h: "(\<forall>b. \<not> (perr' = None \<and> HasPrefix mt' ''text/'' \<and> 0 < length b \<and> length b < 256 \<and>
            ((charset' = [] \<or> EqualFold charset' ''utf-8'' \<or> MIME_Encoding charset' = Inr None) \<and>
               b = errBody e' \<or>
             charset' \<noteq> [] \<and> \<not> EqualFold charset' ''utf-8'' \<and>
               (\<exists>enc. MIME_Encoding charset' = Inr (Some enc) \<and>
                  Bytes (snd (NewDecoder enc)) (fst (NewDecoder enc)) (errBody e')
                    = Some (Inr b))))) \<and>
      (\<forall>enc. perr' = None \<and> HasPrefix mt' ''text/'' \<and> charset' \<noteq> [] \<and>
            \<not> EqualFold charset' ''utf-8'' \<and> MIME_Encoding charset' = Inr (Some enc)
            \<longrightarrow> Bytes (snd (NewDecoder enc)) (fst (NewDecoder enc)) (errBody e') \<noteq> None)"
  let ?status = "Some (Status (Response e'))"
  show "Error ParseMediaType MIME_Encoding TrimSpace e' = ?status"
  proof (cases "perr' = None \<and> HasPrefix mt' ''text/''")
    case False
    with assms(3) show ?thesis
      by (auto simp: Error_def)
  next
    case istext: True
    show ?thesis
    proof (cases "charset' \<noteq> [] \<and> \<not> EqualFold charset' ''utf-8''")
      case False
      with h istext have "\<not> (0 < length (errBody e') \<and> length (errBody e') < 256)"
        by blast
      with assms(3,4) istext False show ?thesis
        by (auto simp: Error_def Let_def)
    next
      case cs: True
      show ?thesis
      proof (cases "MIME_Encoding charset'")
        case (Inl ierr)
        with assms(3,4) istext cs show ?thesis
          by (auto simp: Error_def Let_def)
      next
        case (Inr oenc)
        show ?thesis
        proof (cases oenc)
          case None
          with h istext Inr have "\<not> (0 < length (errBody e') \<and> length (errBody e') < 256)"
            by blast
          with assms(3,4) istext cs Inr None show ?thesis
            by (auto simp: Error_def Let_def)
        next
          case (Some enc)
          with h istext cs Inr
          have "Bytes (snd (NewDecoder enc)) (fst (NewDecoder enc)) (errBody e') \<noteq> None"
            by blast
          then obtain res where
            res: "Bytes (snd (NewDecoder enc)) (fst (NewDecoder enc)) (errBody e') = Some res"
            by blast
          show ?thesis
          proof (cases res)
            case (Inl derr)
            with assms(3,4) istext cs Inr Some res show ?thesis
              by (cases "NewDecoder enc") (auto simp: Error_def Let_def)
          next
            case (Inr b)
            with h istext cs \<open>MIME_Encoding charset' = Inr oenc\<close> Some res
            have "\<not> (0 < length b \<and> length b < 256)"
              by blast
            with assms(3,4) istext cs \<open>MIME_Encoding charset' = Inr oenc\<close> Some res Inr show ?thesis
              by (cases "NewDecoder enc") (auto simp: Error_def Let_def)
          qed
        qed
      qed
    qed
  qed
qed

theorem Error_message_witness:
  "Error test_ParseMediaType test_index TrimSpace_ascii
     \<lparr>Response = \<lparr>Status = ''500 Internal Server Error'', StatusCode = 500,
        rHeader = [''Content-Type'' \<mapsto> ''text/plain;charset=iso-8859-1'']\<rparr>,
      errBody = [0xA3, 0x0A]\<rparr> = Some (string_of_bytes [0xC2, 0xA3]) \<and>
   string_of_bytes [0xC2, 0xA3] \<noteq> ''500 Internal Server Error'' \<and>
   HasPrefix ''text/plain'' ''text/'' \<and>
   Error test_ParseMediaType test_index TrimSpace_ascii
     \<lparr>Response = \<lparr>Status = ''500 Internal Server Error'', StatusCode = 500,
        rHeader = Map.empty\<rparr>,
      errBody = []\<rparr> = Some ''500 Internal Server Error''"
proof -
  let ?e' = "\<lparr>Response = \<lparr>Status = ''500 Internal Server Error'', StatusCode = 500,
        rHeader = Map.empty\<rparr>,
      errBody = []\<rparr>"
  have p': "test_ParseMediaType (index_map (rHeader (Response ?e')) ''Content-Type'')
      = ([], Map.empty, Some (MIMEError ''mime: no media type''))"
    by (simp add: test_ParseMediaType_def index_map_def)
  have c': "[] = index_map Map.empty ''charset''"
    by (simp add: index_map_def)
  from Error_message [where ParseMediaType = test_ParseMediaType and e' = ?e'
      and mt' = "[]" and params' = Map.empty
      and perr' = "Some (MIMEError ''mime: no media type'')" and charset' = "[]"
      and e = ?e' and mt = "[]" and params = Map.empty
      and perr = "Some (MIMEError ''mime: no media type'')" and charset = "[]"
      and MIME_Encoding = test_index and TrimSpace = TrimSpace_ascii,
      THEN conjunct2, THEN conjunct2] p' c'
  have status: "Error test_ParseMediaType test_index TrimSpace_ascii ?e'
      = Some ''500 Internal Server Error''"
    by simp
  let ?e = "\<lparr>Response = \<lparr>Status = ''500 Internal Server Error'', StatusCode = 500,
        rHeader = [''Content-Type'' \<mapsto> ''text/plain;charset=iso-8859-1'']\<rparr>,
      errBody = [0xA3, 0x0A]\<rparr>"
  have p: "test_ParseMediaType (index_map (rHeader (Response ?e)) ''Content-Type'')
      = (''text/plain'', [''charset'' \<mapsto> ''iso-8859-1''], None)"
    by (simp add: test_ParseMediaType_def index_map_def)
  have c: "''iso-8859-1'' = index_map [''charset'' \<mapsto> ''iso-8859-1''] ''charset''"
    by (simp add: index_map_def)
  have pre: "HasPrefix ''text/plain'' ''text/''"
    by (simp add: HasPrefix_def)
  have nf: "\<not> EqualFold ''iso-8859-1'' ''utf-8''"
    by (simp add: EqualFold_def)
  have idx: "test_index ''iso-8859-1'' = Inr (Some (ISO8859_1 ()))"
    by (simp add: test_index_def)
  have dec: "Bytes (snd (NewDecoder (ISO8859_1 ()))) (fst (NewDecoder (ISO8859_1 ()))) (errBody ?e)
      = Some (Inr [0xC2, 0xA3, 0x0A])"
    by code_simp
  have trim: "TrimSpace_ascii [0xC2, 0xA3, 0x0A] = [0xC2, 0xA3]"
    by (simp add: TrimSpace_ascii_def asciiSpace_def)
  have "\<exists>enc. test_index ''iso-8859-1'' = Inr (Some enc) \<and>
      Bytes (snd (NewDecoder enc)) (fst (NewDecoder enc)) (errBody ?e) = Some (Inr [0xC2, 0xA3, 0x0A])"
    using idx dec by blast
  with Error_message [where ParseMediaType = test_ParseMediaType and e = ?e
      and mt = "''text/plain''" and params = "[''charset'' \<mapsto> ''iso-8859-1'']"
      and perr = None and charset = "''iso-8859-1''" and buf = "[0xC2, 0xA3, 0x0A]"
      and MIME_Encoding = test_index and TrimSpace = TrimSpace_ascii
      and e' = ?e' and mt' = "[]" and params' = Map.empty
      and perr' = "Some (MIMEError ''mime: no media type'')" and charset' = "[]",
      THEN conjunct1]
    p c p' c' pre nf trim
  have msg: "Error test_ParseMediaType test_index TrimSpace_ascii ?e
      = Some (string_of_bytes [0xC2, 0xA3])"
    by simp
  have ne: "string_of_bytes [0xC2, 0xA3] \<noteq> Status (Response ?e)"
    by (simp add: string_of_bytes_def)
  from Error_message [where ParseMediaType = test_ParseMediaType and e = ?e
      and mt = "''text/plain''" and params = "[''charset'' \<mapsto> ''iso-8859-1'']"
      and perr = None and charset = "''iso-8859-1''"
      and MIME_Encoding = test_index and TrimSpace = TrimSpace_ascii
      and msg = "string_of_bytes [0xC2, 0xA3]"
      and e' = ?e' and mt' = "[]" and params' = Map.empty
      and perr' = "Some (MIMEError ''mime: no media type'')" and charset' = "[]",
      THEN conjunct2, THEN conjunct1] p c p' c' msg ne
  have "HasPrefix ''text/plain'' ''text/''"
    by simp
  with msg ne status show ?thesis
    by simp
qed

end
